theory Spec2Isabelle
  imports Main "HOL-Library.Sublist"
begin

section \<open>Python values the bindings handle\<close>

text \<open>
  Every exception the source raises, or lets escape from a subscript, an unpacking or a
  library call, is a value of \<open>error\<close>; a function that can raise returns
  \<open>error + 'a\<close> with \<open>Inl\<close> for the exception.
\<close>

text \<open>
  An option of the driver that is a bool or a string (\<open>test\<close>, \<open>skip_existing\<close>), as
  its annotation says; a \<open>KeyError\<close> carries the key that was not found.
\<close>

datatype bool_or_str = B bool | Lit string

datatype error =
    IndexError
  | KeyError bool_or_str
  | StopIteration
  | ValueError string
  | RuntimeError string
  | FileNotFoundError string
  | IsADirectoryError string
  | LibraryError string

text \<open>
  A path is the list of the components of an absolute, resolved location, the root
  being \<open>[]\<close>. \<open>p / name\<close> of pathlib is \<open>p @ [name]\<close> (the names the source
  appends are taken as single components).
\<close>

type_synonym path = "string list"

definition path_str :: "path \<Rightarrow> string" where
  "path_str p = (if p = [] then ''/'' else concat (map (\<lambda>c. ''/'' @ c) p))"

text \<open>Python's \<open>str\<close> of an integer: decimal digits, a minus sign when negative.\<close>

fun str_nat :: "nat \<Rightarrow> string" where
  "str_nat n =
     (if n < 10 then [''0123456789'' ! n]
      else str_nat (n div 10) @ [''0123456789'' ! (n mod 10)])"

declare str_nat.simps [simp del]

definition str_int :: "int \<Rightarrow> string" where
  "str_int i = (if i < 0 then ''-'' @ str_nat (nat (- i)) else str_nat (nat i))"

text \<open>\<open>str.startswith\<close> is \<open>prefix\<close>; \<open>str.removeprefix\<close>:\<close>

definition removeprefix :: "string \<Rightarrow> string \<Rightarrow> string" where
  "removeprefix p s = (if prefix p s then drop (length p) s else s)"

definition SRC_PREFIX :: string where
  "SRC_PREFIX = ''Copying source from url: ''"

definition BLD_PREFIX :: string where
  "BLD_PREFIX = ''Build variant: ''"

section \<open>The file system\<close>

text \<open>
  The part of the disk the bindings read and change: an association list from paths to
  nodes, a file carrying its text. A lookup is \<open>map_of\<close>; a deletion removes every
  binding of the path. Permissions, symbolic links and failures of the operating system
  itself are outside the model.
\<close>

datatype node = Dir | File string

type_synonym filesystem = "(path \<times> node) list"

definition is_dir :: "filesystem \<Rightarrow> path \<Rightarrow> bool" where
  "is_dir fs p = (map_of fs p = Some Dir)"

definition is_file :: "filesystem \<Rightarrow> path \<Rightarrow> bool" where
  "is_file fs p = (case map_of fs p of Some (File c) \<Rightarrow> True | _ \<Rightarrow> False)"

text \<open>\<open>any(folder.iterdir())\<close>: some entry lies directly inside the folder.\<close>

definition has_entries :: "filesystem \<Rightarrow> path \<Rightarrow> bool" where
  "has_entries fs p = list_ex (\<lambda>e. fst e \<noteq> [] \<and> butlast (fst e) = p) fs"

text \<open>\<open>Path.rmdir\<close> and \<open>Path.unlink\<close>, called only after the check that the node is there.\<close>

definition remove_path :: "filesystem \<Rightarrow> path \<Rightarrow> filesystem" where
  "remove_path fs p = filter (\<lambda>e. fst e \<noteq> p) fs"

text \<open>\<open>shutil.rmtree\<close>: the directory and everything below it.\<close>

definition rmtree :: "filesystem \<Rightarrow> path \<Rightarrow> filesystem" where
  "rmtree fs p = filter (\<lambda>e. \<not> prefix p (fst e)) fs"

text \<open>
  Opening a file for reading and reading all of it. A path that has no node is answered
  with \<open>FileNotFoundError\<close>, also where it lies below a regular file and the operating
  system would answer \<open>NotADirectoryError\<close>.
\<close>

definition read_text :: "filesystem \<Rightarrow> path \<Rightarrow> error + string" where
  "read_text fs p =
     (case map_of fs p of
        None \<Rightarrow> Inl (FileNotFoundError (path_str p))
      | Some Dir \<Rightarrow> Inl (IsADirectoryError (path_str p))
      | Some (File c) \<Rightarrow> Inr c)"

section \<open>The log events and the libraries\<close>

text \<open>
  One parsed line of the external tool's JSON log: its \<open>timestamp\<close> and its
  \<open>fields.message\<close>.
\<close>

record log_event =
  timestamp :: string
  message :: string

text \<open>
  A \<open>datetime\<close> object: the wall-clock reading in microseconds since 1970-01-01T00:00:00
  and the offset of its fixed-offset \<open>tzinfo\<close> in seconds, \<open>None\<close> when naive.
\<close>

record datetime =
  wall_us :: int
  tzinfo :: "int option"

datatype iso_arg = IsoStr string | IsoDt datetime

text \<open>
  A value that ends up in the argument list of the external process: a string, a
  \<open>Path\<close> or an integer. \<open>str_of\<close> is Python's \<open>str\<close> on it. (A \<open>path\<close> is absolute,
  so the \<open>str\<close> of a relative \<open>Path\<close> has no counterpart.)
\<close>

datatype pyval = PyStr string | PyPath path | PyInt int

fun str_of :: "pyval \<Rightarrow> string" where
  "str_of (PyStr s) = s"
| "str_of (PyPath p) = path_str p"
| "str_of (PyInt i) = str_int i"

text \<open>
  What the source calls and does not define: the standard library (pathlib, the parser
  of \<open>strptime\<close>, shlex, glob matching, json, tempfile, importlib, subprocess),
  ruamel.yaml, conda_index, the environment (the prefix, the local time zone, the clock)
  and the external executable. They are parameters of every function below, so each
  theorem holds whatever they compute.
\<close>

record pylib =
  resolve :: "string \<Rightarrow> path"
    \<comment> \<open>\<open>Path(s).resolve()\<close>\<close>
  to_path :: "string \<Rightarrow> path"
    \<comment> \<open>the location \<open>Path(s)\<close> names to the operating system\<close>
  yaml_package_name :: "string \<Rightarrow> error + string"
    \<comment> \<open>\<open>YAML(typ="rt").load(f)["package"]["name"]\<close> on the text of the file\<close>
  strptime :: "string \<Rightarrow> error + int"
    \<comment> \<open>\<open>datetime.strptime(s, "%Y-%m-%dT%H:%M:%S.%fZ")\<close>: the wall-clock reading of the
        naive \<open>datetime\<close> parsed (the \<open>Z\<close> of the format is a literal), or the \<open>ValueError\<close>\<close>
  local_zone_offset :: "int \<Rightarrow> int"
    \<comment> \<open>the system's local time zone: the offset from UTC, in seconds, that it gives to a
        wall-clock reading taken as local time\<close>
  now_wall :: int
    \<comment> \<open>the clock: the wall-clock reading of \<open>datetime.now()\<close> at the call\<close>
  shlex_split :: "string \<Rightarrow> error + string list"
  shlex_quote :: "string \<Rightarrow> string"
  glob_match :: "string \<Rightarrow> path \<Rightarrow> bool"
    \<comment> \<open>whether a path, relative to the directory searched, matches the pattern of \<open>rglob\<close>\<close>
  conda_prefix :: "string option"
    \<comment> \<open>\<open>os.getenv("CONDA_PREFIX")\<close>\<close>
  run_process :: "pyval list \<Rightarrow> filesystem \<Rightarrow> (string \<times> string \<times> int) \<times> filesystem"
    \<comment> \<open>the external executable: standard output, standard error, exit code, and the disk it leaves\<close>
  json_loads_lines :: "string \<Rightarrow> error + log_event list"
    \<comment> \<open>\<open>[json.loads(line) for line in stderr.splitlines()]\<close>\<close>
  json_dumps :: "log_event \<Rightarrow> string"
  mktemp_name :: "filesystem \<Rightarrow> path"
    \<comment> \<open>the name \<open>tempfile.NamedTemporaryFile\<close> picks\<close>
  has_conda_index :: bool
    \<comment> \<open>\<open>importlib.util.find_spec("conda_index")\<close> found the module\<close>
  update_index :: "string \<Rightarrow> filesystem \<Rightarrow> filesystem"
    \<comment> \<open>\<open>conda_index.api.update_index\<close>\<close>

section \<open>The helpers of the source\<close>

text \<open>\<open>_get_package_name\<close>: the package name from \<open>recipe.yaml\<close> in the recipe directory.\<close>

definition get_package_name :: "pylib \<Rightarrow> filesystem \<Rightarrow> path \<Rightarrow> error + string" where
  "get_package_name lib fs recipe =
     (case read_text fs (recipe @ [''recipe.yaml'']) of
        Inl e \<Rightarrow> Inl e
      | Inr txt \<Rightarrow> yaml_package_name lib txt)"

text \<open>\<open>_remove_empty_folder\<close>: remove the folder if it exists and is empty.\<close>

definition remove_empty_folder :: "filesystem \<Rightarrow> path \<Rightarrow> filesystem" where
  "remove_empty_folder fs folder =
     (if is_dir fs folder \<and> \<not> has_entries fs folder then remove_path fs folder else fs)"

text \<open>\<open>_get_msg\<close>: the \<open>$.fields.message\<close> part of a log entry.\<close>

definition get_msg :: "log_event \<Rightarrow> string" where
  "get_msg log_line = message log_line"

text \<open>
  The operations of \<open>datetime\<close> that \<open>_get_local_ts\<close> calls, as the documentation of
  the standard library describes them, on the local zone and the clock of \<open>pylib\<close>. A
  time zone object is a fixed offset (\<open>datetime.timezone\<close>), given in seconds.

  \<^item> \<open>datetime.now().astimezone().tzinfo\<close> is the fixed offset the local zone has at
    the current reading of the clock.
  \<^item> \<open>tz.fromutc(dt)\<close> of a fixed offset returns \<open>dt + offset\<close>, the \<open>tzinfo\<close> kept.
  \<^item> \<open>dt.astimezone(tz)\<close> presumes a naive \<open>dt\<close> to be in the system's local zone,
    subtracts the offset of \<open>dt\<close> to reach UTC, attaches \<open>tz\<close> and returns \<open>tz.fromutc\<close> of
    that.
  \<^item> \<open>dt.timestamp()\<close> of an aware \<open>dt\<close> is the number of seconds from 1970-01-01 UTC
    to \<open>dt\<close>; of a naive one, the same with the local zone's offset. \<open>int\<close> truncates
    it towards zero. The float is taken as the exact quotient, which it is to the
    second for every time before the year 2106.
\<close>

definition trunc_div :: "int \<Rightarrow> int \<Rightarrow> int" where
  "trunc_div a b = (if a < 0 then - ((- a) div b) else a div b)"

definition now_local_tz :: "pylib \<Rightarrow> int" where
  "now_local_tz lib = local_zone_offset lib (now_wall lib)"

definition fromutc :: "int \<Rightarrow> datetime \<Rightarrow> datetime" where
  "fromutc tz dt = dt \<lparr> wall_us := wall_us dt + tz * 1000000 \<rparr>"

definition utcoffset :: "pylib \<Rightarrow> datetime \<Rightarrow> int" where
  "utcoffset lib dt =
     (case tzinfo dt of None \<Rightarrow> local_zone_offset lib (wall_us dt) | Some off \<Rightarrow> off)"

definition astimezone :: "pylib \<Rightarrow> datetime \<Rightarrow> int \<Rightarrow> datetime" where
  "astimezone lib dt tz =
     fromutc tz \<lparr> wall_us = wall_us dt - utcoffset lib dt * 1000000, tzinfo = Some tz \<rparr>"

definition int_timestamp :: "pylib \<Rightarrow> datetime \<Rightarrow> int" where
  "int_timestamp lib dt = trunc_div (wall_us dt - utcoffset lib dt * 1000000) 1000000"

text \<open>\<open>_get_local_ts\<close>, call by call.\<close>

definition get_local_ts :: "pylib \<Rightarrow> iso_arg \<Rightarrow> error + int" where
  "get_local_ts lib iso_dt =
     (case (case iso_dt of
              IsoStr s \<Rightarrow>
                (case strptime lib s of
                   Inl e \<Rightarrow> Inl e
                 | Inr w \<Rightarrow> Inr \<lparr> wall_us = w, tzinfo = None \<rparr>)
            | IsoDt d \<Rightarrow> Inr d) of
        Inl e \<Rightarrow> Inl e
      | Inr dt \<Rightarrow>
          (let local_tz = now_local_tz lib;
               updated_dt = astimezone lib dt local_tz
           in (case tzinfo updated_dt of
                 None \<Rightarrow> Inl (ValueError ''local timezone transfer failed'')
               | Some updated_tz \<Rightarrow> Inr (int_timestamp lib (fromutc updated_tz updated_dt)))))"

section \<open>Reconciliation and cleanup\<close>

text \<open>
  The \<open>skip_existing\<close> argument of the cleanup is a bool or the string \<open>"all"\<close>; the
  source tests its truthiness.
\<close>

fun truthy :: "bool_or_str \<Rightarrow> bool" where
  "truthy (B b) = b"
| "truthy (Lit s) = (s \<noteq> [])"

text \<open>Lines 109 to 114: the build directory and the \<open>not_skipped\<close> flag.\<close>

definition bld_dir_of :: "path \<Rightarrow> string \<Rightarrow> int \<Rightarrow> path" where
  "bld_dir_of output_dir package ts =
     output_dir @ [''bld'', ''rattler-build_'' @ package @ ''_'' @ str_int ts]"

definition not_skipped_of :: "bool_or_str \<Rightarrow> log_event list \<Rightarrow> string \<Rightarrow> bool" where
  "not_skipped_of skip_existing logs variant =
     (if truthy skip_existing
      then (if get_msg (last logs) = ''Skipping build for '' @ variant then False else True)
      else True)"

text \<open>
  Lines 122 to 136, the branch taken when the build was not skipped: the first message
  after index 1 with the source prefix names the source cache file, which must be a
  file and is unlinked when the source cache is cleaned.
\<close>

definition src_file_of :: "pylib \<Rightarrow> log_event list \<Rightarrow> error + path" where
  "src_file_of lib logs =
     (case find (prefix SRC_PREFIX) (map get_msg (drop 2 logs)) of
        None \<Rightarrow> Inl StopIteration
      | Some src_msg \<Rightarrow>
          (case shlex_split lib (removeprefix SRC_PREFIX src_msg) of
             Inl e \<Rightarrow> Inl e
           | Inr [] \<Rightarrow> Inl (ValueError ''not enough values to unpack (expected at least 1, got 0)'')
           | Inr (src_file_str # _) \<Rightarrow> Inr (to_path lib src_file_str)))"

definition clean_src_file :: "pylib \<Rightarrow> log_event list \<Rightarrow> bool \<Rightarrow> filesystem \<Rightarrow> (error + unit) \<times> filesystem" where
  "clean_src_file lib logs clean_src_cache fs =
     (case src_file_of lib logs of
        Inl e \<Rightarrow> (Inl e, fs)
      | Inr src_file \<Rightarrow>
          if \<not> is_file fs src_file then (Inl (RuntimeError ''should not happen''), fs)
          else if clean_src_cache then (Inr (), remove_path fs src_file)
          else (Inr (), fs))"

text \<open>Lines 138 to 147: the empty \<open>src_cache\<close> folder, the build directory, the empty \<open>bld\<close> folder.\<close>

definition clean_folders :: "path \<Rightarrow> path \<Rightarrow> bool \<Rightarrow> bool \<Rightarrow> bool \<Rightarrow> filesystem \<Rightarrow> filesystem" where
  "clean_folders output_dir bld_dir bld_dir_exists clean_bld_cache clean_src_cache fs =
     (let fs1 = (if clean_src_cache then remove_empty_folder fs (output_dir @ [''src_cache'']) else fs)
      in if clean_bld_cache
         then remove_empty_folder (if bld_dir_exists then rmtree fs1 bld_dir else fs1) (output_dir @ [''bld''])
         else fs1)"

text \<open>
  Lines 149 to 161: the extension of the package format and the one match of the glob.
  \<open>rglob\<close> yields every entry below the directory whose relative path the library
  matches with the pattern. (A pattern that pathlib refuses, an absolute one for
  example, makes the call fail with pathlib's own exception; the model has the match
  only.)
\<close>

definition rglob :: "pylib \<Rightarrow> filesystem \<Rightarrow> path \<Rightarrow> string \<Rightarrow> path list" where
  "rglob lib fs root pattern =
     remdups (filter (\<lambda>q. strict_prefix root q \<and> glob_match lib pattern (drop (length root) q)) (map fst fs))"

definition ext_of :: "string \<Rightarrow> string option" where
  "ext_of package_format =
     (if package_format = ''tar-bz2'' then Some ''.tar.bz2''
      else if package_format = ''conda'' then Some ''.conda''
      else None)"

fun join :: "string \<Rightarrow> string list \<Rightarrow> string" where
  "join sep [] = []"
| "join sep [x] = x"
| "join sep (x # y # ys) = x @ sep @ join sep (y # ys)"

definition repr_paths :: "path list \<Rightarrow> string" where
  "repr_paths ms =
     ''['' @ join '', '' (map (\<lambda>m. ''PosixPath('' @ [CHR 0x27] @ path_str m @ [CHR 0x27] @ '')'') ms) @ '']''"

definition resolve_artifact :: "pylib \<Rightarrow> filesystem \<Rightarrow> path \<Rightarrow> string \<Rightarrow> string \<Rightarrow> error + path" where
  "resolve_artifact lib fs output_dir package_format variant =
     (case ext_of package_format of
        None \<Rightarrow> Inl (ValueError (''Unknown package-format: '' @ package_format))
      | Some ext \<Rightarrow>
          let matches = rglob lib fs output_dir (variant @ ext)
          in if length matches \<noteq> 1
             then Inl (RuntimeError (''none or multiple output packages found: '' @ repr_paths matches))
             else Inr (matches ! 0))"

text \<open>
  \<open>_clean_output\<close>. The result is the exception or the path of the package, together
  with the disk as the call leaves it.
\<close>

definition clean_output ::
  "pylib \<Rightarrow> string \<Rightarrow> string \<Rightarrow> string \<Rightarrow> bool_or_str \<Rightarrow> log_event list \<Rightarrow> bool \<Rightarrow> bool \<Rightarrow>
     filesystem \<Rightarrow> (error + path) \<times> filesystem" where
  "clean_output lib recipe output_dir package_format skip_existing logs clean_bld_cache clean_src_cache fs =
     (let recipe_p = resolve lib recipe;
          output_dir_p = resolve lib output_dir
      in if length logs \<le> 1 then (Inl IndexError, fs)
         else
           let variant_line = logs ! 1
           in case get_package_name lib fs recipe_p of
                Inl e \<Rightarrow> (Inl e, fs)
              | Inr package \<Rightarrow>
                  (case get_local_ts lib (IsoStr (timestamp variant_line)) of
                     Inl e \<Rightarrow> (Inl e, fs)
                   | Inr ts \<Rightarrow>
                       let variant = removeprefix BLD_PREFIX (get_msg variant_line);
                           bld_dir = bld_dir_of output_dir_p package ts;
                           not_skipped = not_skipped_of skip_existing logs variant;
                           bld_dir_exists = is_dir fs bld_dir
                       in if bld_dir_exists \<noteq> not_skipped
                          then (Inl (ValueError ''bld dir exists but it shouldnt or vice versa''), fs)
                          else
                            (case (if not_skipped then clean_src_file lib logs clean_src_cache fs
                                   else (Inr (), fs)) of
                               (Inl e, fs1) \<Rightarrow> (Inl e, fs1)
                             | (Inr _, fs1) \<Rightarrow>
                                 let fs2 = clean_folders output_dir_p bld_dir bld_dir_exists
                                             clean_bld_cache clean_src_cache fs1
                                 in (resolve_artifact lib fs2 output_dir_p package_format variant, fs2))))"

section \<open>The argument list of the external process\<close>

text \<open>The parameters of \<open>rattler_build\<close>, under the source's names.\<close>

record build_config =
  recipe :: string
  recipe_dir :: "pyval option"
  up_to :: "string option"
  build_platform :: string
  target_platform :: "string option"
  host_platform :: string
  channels :: "string list"
  variant_config :: "path option"
  verbose :: int
  quiet :: bool
  ignore_recipe_variants :: bool
  log_style :: string
  render_only :: bool
  with_solve :: bool
  wrap_log_lines :: "string option"
  color :: string
  keep_build :: bool
  no_build_id :: bool
  compression_threads :: "int option"
  experimental :: bool
  extra_meta :: "(string \<times> string) list option"
  package_format :: string
  package_compression :: "int option"
  no_include_recipe :: bool
  no_test :: bool
  test :: string
  color_build_log :: bool
  output_dir :: string
  skip_existing :: string
  noarch_build_platform :: "string option"

text \<open>Lines 324 to 334: the table of the boolean flags.\<close>

definition boolean_values :: "build_config \<Rightarrow> (bool \<times> string) list" where
  "boolean_values cfg =
     [(quiet cfg, ''--quiet''),
      (ignore_recipe_variants cfg, ''--ignore-recipe-variants''),
      (render_only cfg, ''--render-only''),
      (with_solve cfg, ''--with-solve''),
      (keep_build cfg, ''--keep_build''),
      (no_build_id cfg, ''--no-build-id''),
      (experimental cfg, ''--experimental''),
      (no_include_recipe cfg, ''--no-include-recipe''),
      (color_build_log cfg, ''--color-build-log'')]"

text \<open>Lines 351 to 359: the table of the optional values.\<close>

definition optional_values :: "build_config \<Rightarrow> (pyval option \<times> string) list" where
  "optional_values cfg =
     [(recipe_dir cfg, ''--recipe-dir''),
      (map_option PyStr (up_to cfg), ''--up-to''),
      (map_option PyStr (target_platform cfg), ''--target-platform''),
      (map_option PyPath (variant_config cfg), ''--variant-config''),
      (map_option PyStr (wrap_log_lines cfg), ''--wrap-log-lines''),
      (map_option PyInt (compression_threads cfg), ''--compression-threads''),
      (map_option PyStr (noarch_build_platform cfg), ''--noarch-build-platform'')]"

text \<open>Lines 371 to 375: the value of \<open>--package-format\<close>.\<close>

definition fmt_of :: "build_config \<Rightarrow> string" where
  "fmt_of cfg =
     (case package_compression cfg of
        Some level \<Rightarrow> package_format cfg @ '':'' @ str_int level
      | None \<Rightarrow> package_format cfg)"

text \<open>
  Lines 301 to 376: the list \<open>args\<close> as the source builds it, one \<open>extend\<close> or
  \<open>append\<close> after the other. The deprecation warning of \<open>no_test\<close> is a warning and
  changes nothing in the list.
\<close>

definition rattler_build_args :: "pylib \<Rightarrow> build_config \<Rightarrow> path \<Rightarrow> pyval list" where
  "rattler_build_args lib cfg rattler_build_exec =
     [PyPath rattler_build_exec, PyStr ''build'',
      PyStr ''--recipe'', PyPath (resolve lib (recipe cfg)),
      PyStr ''--build-platform'', PyStr (build_platform cfg),
      PyStr ''--host-platform'', PyStr (host_platform cfg),
      PyStr ''--log-style'', PyStr (log_style cfg),
      PyStr ''--color'', PyStr (color cfg),
      PyStr ''--test'', PyStr (test cfg),
      PyStr ''--output-dir'', PyPath (resolve lib (output_dir cfg)),
      PyStr ''--skip-existing'', PyStr (skip_existing cfg)]
     @ concat (map (\<lambda>channel. [PyStr ''--channel'', PyStr channel]) (channels cfg))
     @ replicate (nat (verbose cfg)) (PyStr ''--verbose'')
     @ concat (map (\<lambda>(arg, flag). if arg then [PyStr flag] else []) (boolean_values cfg))
     @ (if no_test cfg then [PyStr ''--no-test''] else [])
     @ concat (map (\<lambda>(arg, flag). case arg of
                       None \<Rightarrow> []
                     | Some v \<Rightarrow> [PyStr flag, PyStr (shlex_quote lib (str_of v))])
                 (optional_values cfg))
     @ (case extra_meta cfg of
          None \<Rightarrow> []
        | Some m \<Rightarrow>
            concat (map (\<lambda>(key, val). [PyStr ''--extra-meta'', PyStr (shlex_quote lib (key @ ''='' @ val))]) m))
     @ [PyStr ''--package-format'', PyStr (fmt_of cfg)]"

text \<open>
  The same list read as the table of section 4.1 of the specification: the flags in the
  order they are emitted, each with the values that follow it. \<open>render\<close> flattens the
  table; that the source's list is the executable, \<open>build\<close> and the rendered table is
  proved below.
\<close>

definition flag_table :: "pylib \<Rightarrow> build_config \<Rightarrow> (string \<times> pyval list) list" where
  "flag_table lib cfg =
     [(''--recipe'', [PyPath (resolve lib (recipe cfg))]),
      (''--build-platform'', [PyStr (build_platform cfg)]),
      (''--host-platform'', [PyStr (host_platform cfg)]),
      (''--log-style'', [PyStr (log_style cfg)]),
      (''--color'', [PyStr (color cfg)]),
      (''--test'', [PyStr (test cfg)]),
      (''--output-dir'', [PyPath (resolve lib (output_dir cfg))]),
      (''--skip-existing'', [PyStr (skip_existing cfg)])]
     @ map (\<lambda>channel. (''--channel'', [PyStr channel])) (channels cfg)
     @ replicate (nat (verbose cfg)) (''--verbose'', [])
     @ map (\<lambda>e. (snd e, [])) (filter fst (boolean_values cfg))
     @ (if no_test cfg then [(''--no-test'', [])] else [])
     @ concat (map (\<lambda>(arg, flag). case arg of
                       None \<Rightarrow> []
                     | Some v \<Rightarrow> [(flag, [PyStr (shlex_quote lib (str_of v))])])
                 (optional_values cfg))
     @ (case extra_meta cfg of
          None \<Rightarrow> []
        | Some m \<Rightarrow> map (\<lambda>(key, val). (''--extra-meta'', [PyStr (shlex_quote lib (key @ ''='' @ val))])) m)
     @ [(''--package-format'', [PyStr (fmt_of cfg)])]"

definition render :: "(string \<times> pyval list) list \<Rightarrow> pyval list" where
  "render table = concat (map (\<lambda>e. PyStr (fst e) # snd e) table)"

text \<open>
  \<open>rattler_build\<close>: find the executable, run it, read its log. The result is the
  exception or the logs with the exit code, together with the disk the process leaves.
\<close>

definition rattler_build ::
  "pylib \<Rightarrow> build_config \<Rightarrow> filesystem \<Rightarrow> (error + log_event list \<times> int) \<times> filesystem" where
  "rattler_build lib cfg fs =
     (case conda_prefix lib of
        None \<Rightarrow> (Inl (FileNotFoundError ''No conda prefix found.''), fs)
      | Some prefix_str \<Rightarrow>
          if prefix_str = [] then (Inl (FileNotFoundError ''No conda prefix found.''), fs)
          else
            let rattler_build_exec = resolve lib prefix_str @ [''bin'', ''rattler-build'']
            in if \<not> is_file fs rattler_build_exec
               then (Inl (FileNotFoundError ''rattler-build not found.''), fs)
               else
                 (case run_process lib (rattler_build_args lib cfg rattler_build_exec) fs of
                    ((stdout, stderr, returncode), fs1) \<Rightarrow>
                      if stdout \<noteq> [] then (Inl (RuntimeError ''stdout should be empty''), fs1)
                      else
                        (case json_loads_lines lib stderr of
                           Inl e \<Rightarrow> (Inl e, fs1)
                         | Inr logs \<Rightarrow> (Inr (logs, returncode), fs1))))"

section \<open>The optimized driver\<close>

text \<open>
  The parameters of \<open>optimized_rattler_build\<close>; those whose name \<open>rattler_build\<close> has
  too carry the prefix \<open>opt_\<close>.
\<close>

record optimized_config =
  opt_recipe :: string
  opt_output_dir :: string
  clean_bld_cache :: bool
  clean_src_cache :: bool
  run_conda_index :: bool
  check :: bool
  opt_build_platform :: string
  opt_target_platform :: "string option"
  opt_host_platform :: string
  opt_channels :: "string list"
  opt_keep_build :: bool
  opt_compression_threads :: int
  opt_experimental :: bool
  opt_extra_meta :: "(string \<times> string) list option"
  opt_package_format :: string
  opt_package_compression :: "int option"
  opt_no_include_recipe :: bool
  opt_test :: bool_or_str
  opt_skip_existing :: bool_or_str
  opt_noarch_build_platform :: "string option"

text \<open>
  Lines 458 to 465: the two dictionaries, and the subscript of a dictionary by an
  option of the annotated type, a bool or a string, which raises \<open>KeyError\<close> on a key
  that is not there. (A value outside the annotation, such as the integer 1 that Python
  finds under the key \<open>True\<close>, has no counterpart in \<open>bool_or_str\<close>.)
\<close>

definition test_map :: "(bool_or_str \<times> string) list" where
  "test_map = [(B False, ''skip''), (Lit ''native'', ''native''), (B True, ''native-and-emulated'')]"

definition skip_existing_map :: "(bool_or_str \<times> string) list" where
  "skip_existing_map = [(B False, ''none''), (B True, ''local''), (Lit ''all'', ''all'')]"

definition subscript :: "(bool_or_str \<times> string) list \<Rightarrow> bool_or_str \<Rightarrow> error + string" where
  "subscript d k = (case map_of d k of None \<Rightarrow> Inl (KeyError k) | Some v \<Rightarrow> Inr v)"

text \<open>Lines 466 to 487: the configuration handed to \<open>rattler_build\<close>, its defaults filled in.\<close>

definition delegated_config :: "optimized_config \<Rightarrow> string \<Rightarrow> string \<Rightarrow> build_config" where
  "delegated_config oc test_value skip_existing_value =
     \<lparr> recipe = opt_recipe oc,
       recipe_dir = None,
       up_to = None,
       build_platform = opt_build_platform oc,
       target_platform = opt_target_platform oc,
       host_platform = opt_host_platform oc,
       channels = opt_channels oc,
       variant_config = None,
       verbose = 0,
       quiet = False,
       ignore_recipe_variants = True,
       log_style = ''json'',
       render_only = False,
       with_solve = False,
       wrap_log_lines = Some ''false'',
       color = ''never'',
       keep_build = opt_keep_build oc,
       no_build_id = False,
       compression_threads = Some (opt_compression_threads oc),
       experimental = opt_experimental oc,
       extra_meta = opt_extra_meta oc,
       package_format = opt_package_format oc,
       package_compression = opt_package_compression oc,
       no_include_recipe = opt_no_include_recipe oc,
       no_test = False,
       test = test_value,
       color_build_log = False,
       output_dir = opt_output_dir oc,
       skip_existing = skip_existing_value,
       noarch_build_platform = opt_noarch_build_platform oc \<rparr>"

text \<open>\<open>_dump_jsonl\<close>: one JSON document per line.\<close>

definition dump_jsonl :: "pylib \<Rightarrow> log_event list \<Rightarrow> string" where
  "dump_jsonl lib logs = concat (map (\<lambda>line. json_dumps lib line @ [CHR 0x0A]) logs)"

text \<open>
  Lines 515 to 517: \<open>NamedTemporaryFile("w")\<close> is opened, the logs are written into
  it, and leaving the \<open>with\<close> block closes it; the file is created with the default
  \<open>delete=True\<close>, so closing removes it. Then the exception is raised.
\<close>

definition dump_logs_and_raise :: "pylib \<Rightarrow> log_event list \<Rightarrow> filesystem \<Rightarrow> error \<times> filesystem" where
  "dump_logs_and_raise lib logs fs =
     (let name = mktemp_name lib fs;
          fs_written = (name, File (dump_jsonl lib logs)) # fs;
          fs_closed = remove_path fs_written name
      in (RuntimeError (''rattler-build failed. logs written to: '' @ path_str name), fs_closed))"

text \<open>Lines 489 to 518: what the driver does with the logs and the exit code.\<close>

definition after_build ::
  "pylib \<Rightarrow> optimized_config \<Rightarrow> log_event list \<Rightarrow> int \<Rightarrow> filesystem \<Rightarrow>
     (error + path option \<times> log_event list \<times> int) \<times> filesystem" where
  "after_build lib oc logs code fs =
     (if code = 0 then
        (case clean_output lib (opt_recipe oc) (opt_output_dir oc) (opt_package_format oc)
                (opt_skip_existing oc) logs (clean_bld_cache oc) (clean_src_cache oc) fs of
           (Inl e, fs1) \<Rightarrow> (Inl e, fs1)
         | (Inr pkg, fs1) \<Rightarrow>
             (Inr (Some pkg, logs, code),
              if run_conda_index oc \<and> has_conda_index lib
              then update_index lib (opt_output_dir oc) fs1 else fs1))
      else if check oc then
        (case dump_logs_and_raise lib logs fs of (e, fs1) \<Rightarrow> (Inl e, fs1))
      else (Inr (None, logs, code), fs))"

text \<open>\<open>optimized_rattler_build\<close>.\<close>

definition optimized_rattler_build ::
  "pylib \<Rightarrow> optimized_config \<Rightarrow> filesystem \<Rightarrow>
     (error + path option \<times> log_event list \<times> int) \<times> filesystem" where
  "optimized_rattler_build lib oc fs =
     (case subscript test_map (opt_test oc) of
        Inl e \<Rightarrow> (Inl e, fs)
      | Inr test_value \<Rightarrow>
          (case subscript skip_existing_map (opt_skip_existing oc) of
             Inl e \<Rightarrow> (Inl e, fs)
           | Inr skip_existing_value \<Rightarrow>
               (case rattler_build lib (delegated_config oc test_value skip_existing_value) fs of
                  (Inl e, fs1) \<Rightarrow> (Inl e, fs1)
                | (Inr (logs, code), fs1) \<Rightarrow> after_build lib oc logs code fs1)))"

section \<open>A sample library and sample inputs\<close>

text \<open>
  Concrete behaviours for the parameters, used where a theorem is instantiated: paths
  split at the slash, \<open>shlex.quote\<close> as the standard library defines it (a string of
  safe characters is returned as it is, any other is wrapped in single quotes),
  a \<open>shlex.split\<close> that cuts at blanks (the sample messages hold no quotes), a glob
  pattern without wildcards, a local zone that is one hour east of UTC all year, a clock
  at 2024-01-15T11:30:10 local time, and an external process that fails.
\<close>

fun split_sep :: "char \<Rightarrow> string \<Rightarrow> string \<Rightarrow> string list" where
  "split_sep sep acc [] = (if acc = [] then [] else [acc])"
| "split_sep sep acc (c # cs) =
     (if c = sep then (if acc = [] then split_sep sep [] cs else acc # split_sep sep [] cs)
      else split_sep sep (acc @ [c]) cs)"

definition posix_parts :: "string \<Rightarrow> path" where
  "posix_parts s = split_sep CHR ''/'' [] s"

definition safe_chars :: string where
  "safe_chars = ''abcdefghijklmnopqrstuvwxyzABCDEFGHIJKLMNOPQRSTUVWXYZ0123456789_@%+=:,./-''"

definition posix_quote :: "string \<Rightarrow> string" where
  "posix_quote s =
     (if s = [] then [CHR 0x27, CHR 0x27]
      else if list_all (\<lambda>c. c \<in> set safe_chars) s then s
      else [CHR 0x27] @ concat (map (\<lambda>c. if c = CHR 0x27 then [CHR 0x27, CHR 0x22, CHR 0x27, CHR 0x22, CHR 0x27] else [c]) s) @ [CHR 0x27])"

text \<open>
  The parser of the samples knows four timestamps: 2024-01-15T10:30:00.123456,
  2024-07-15T10:30:00.123456, 2024-03-31T01:30:00 and, before 1970,
  1969-12-31T23:59:59.5.
\<close>

definition sample_strptime :: "string \<Rightarrow> error + int" where
  "sample_strptime s =
     (if s = ''2024-01-15T10:30:00.123456Z'' then Inr 1705314600123456
      else if s = ''2024-07-15T10:30:00.123456Z'' then Inr 1721039400123456
      else if s = ''2024-03-31T01:30:00.000000Z'' then Inr 1711848600000000
      else if s = ''1969-12-31T23:59:59.500000Z'' then Inr (- 500000)
      else Inl (ValueError ''time data does not match format''))"

definition demo_lib :: pylib where
  "demo_lib =
     \<lparr> resolve = posix_parts,
       to_path = posix_parts,
       yaml_package_name = (\<lambda>txt. if txt = ''package: {name: mypkg}'' then Inr ''mypkg''
                                   else Inl (LibraryError ''recipe not understood'')),
       strptime = sample_strptime,
       local_zone_offset = (\<lambda>w. 3600),
       now_wall = 1705318210000000,
       shlex_split = (\<lambda>s. Inr (split_sep CHR '' '' [] s)),
       shlex_quote = posix_quote,
       glob_match = (\<lambda>pattern rel. rel \<noteq> [] \<and> last rel = pattern),
       conda_prefix = Some ''/opt/conda'',
       run_process = (\<lambda>args fs. (([], ''failed'', 1), fs)),
       json_loads_lines = (\<lambda>s. Inr [\<lparr> timestamp = ''2024-01-15T10:30:00.123456Z'', message = s \<rparr>]),
       json_dumps = message,
       mktemp_name = (\<lambda>fs. [''tmp'', ''tmpk3v9x1q2'']),
       has_conda_index = False,
       update_index = (\<lambda>d fs. fs) \<rparr>"

text \<open>
  A local zone with daylight saving, Central European Time in 2024: two hours east of
  UTC for the local readings from 2024-03-31T02:00 to 2024-10-27T03:00, one hour
  otherwise. The clock of \<open>cet_lib\<close> reads 2024-11-04T12:00, in winter.
\<close>

definition cet_offset :: "int \<Rightarrow> int" where
  "cet_offset w = (if 1711850400000000 \<le> w \<and> w < 1729998000000000 then 7200 else 3600)"

definition cet_lib :: pylib where
  "cet_lib = demo_lib \<lparr> local_zone_offset := cet_offset, now_wall := 1730721600000000 \<rparr>"

definition demo_logs :: "log_event list" where
  "demo_logs =
     [\<lparr> timestamp = ''2024-01-15T10:29:59.000001Z'', message = ''Found 1 variants'' \<rparr>,
      \<lparr> timestamp = ''2024-01-15T10:30:00.123456Z'', message = ''Build variant: mypkg-1.0-py_0'' \<rparr>,
      \<lparr> timestamp = ''2024-01-15T10:30:01.000000Z'', message = ''Copying source from url: /out/src_cache/mypkg.tar.gz to /out/bld/work'' \<rparr>,
      \<lparr> timestamp = ''2024-01-15T10:30:09.000000Z'', message = ''Build finished'' \<rparr>]"

definition demo_fs :: filesystem where
  "demo_fs =
     [([''recipe'', ''recipe.yaml''], File ''package: {name: mypkg}''),
      ([''out''], Dir),
      ([''out'', ''bld''], Dir),
      ([''out'', ''bld'', ''rattler-build_mypkg_1705314600''], Dir),
      ([''out'', ''bld'', ''rattler-build_mypkg_1705314600'', ''work''], Dir),
      ([''out'', ''src_cache''], Dir),
      ([''out'', ''src_cache'', ''mypkg.tar.gz''], File ''source''),
      ([''out'', ''noarch''], Dir),
      ([''out'', ''noarch'', ''mypkg-1.0-py_0.conda''], File ''package'')]"

definition demo_logs_no_source :: "log_event list" where
  "demo_logs_no_source =
     [\<lparr> timestamp = ''2024-01-15T10:29:59.000001Z'', message = ''Found 1 variants'' \<rparr>,
      \<lparr> timestamp = ''2024-01-15T10:30:00.123456Z'', message = ''Build variant: mypkg-1.0-py_0'' \<rparr>,
      \<lparr> timestamp = ''2024-01-15T10:30:09.000000Z'', message = ''Build finished'' \<rparr>]"

definition demo_fs_cleaned :: filesystem where
  "demo_fs_cleaned =
     [([''recipe'', ''recipe.yaml''], File ''package: {name: mypkg}''),
      ([''out''], Dir),
      ([''out'', ''noarch''], Dir),
      ([''out'', ''noarch'', ''mypkg-1.0-py_0.conda''], File ''package'')]"



definition demo_cfg :: build_config where
  "demo_cfg =
     \<lparr> recipe = ''/recipe'', recipe_dir = None, up_to = None,
       build_platform = ''linux-64'', target_platform = None, host_platform = ''linux-64'',
       channels = [''conda-forge''], variant_config = Some [''tmp'', ''my variants.yaml''],
       verbose = 0, quiet = False, ignore_recipe_variants = False, log_style = ''fancy'',
       render_only = False, with_solve = False, wrap_log_lines = None, color = ''auto'',
       keep_build = False, no_build_id = False, compression_threads = Some 4,
       experimental = False, extra_meta = None, package_format = ''tar-bz2'',
       package_compression = Some 5, no_include_recipe = False, no_test = True,
       test = ''native-and-emulated'', color_build_log = False, output_dir = ''/out'',
       skip_existing = ''none'', noarch_build_platform = None \<rparr>"

definition demo_exec :: path where
  "demo_exec = [''opt'', ''conda'', ''bin'', ''rattler-build'']"

definition demo_oc :: optimized_config where
  "demo_oc =
     \<lparr> opt_recipe = ''/recipe'', opt_output_dir = ''/out'', clean_bld_cache = True,
       clean_src_cache = True, run_conda_index = True, check = True,
       opt_build_platform = ''linux-64'', opt_target_platform = None,
       opt_host_platform = ''linux-64'', opt_channels = [''conda-forge''],
       opt_keep_build = False, opt_compression_threads = 0, opt_experimental = False,
       opt_extra_meta = None, opt_package_format = ''conda'', opt_package_compression = None,
       opt_no_include_recipe = True, opt_test = B True, opt_skip_existing = B True,
       opt_noarch_build_platform = None \<rparr>"

definition demo_fs_installed :: filesystem where
  "demo_fs_installed = (demo_exec, File ''binary'') # demo_fs"




section \<open>Evaluating the sample inputs\<close>

lemmas demo_eval =
  demo_lib_def demo_fs_def demo_logs_def demo_fs_cleaned_def posix_parts_def
  get_package_name_def read_text_def get_local_ts_def not_skipped_of_def removeprefix_def
  sample_strptime_def now_local_tz_def astimezone_def fromutc_def utcoffset_def
  int_timestamp_def trunc_div_def Let_def
  BLD_PREFIX_def SRC_PREFIX_def get_msg_def is_dir_def is_file_def bld_dir_of_def
  str_int_def str_nat.simps path_str_def

lemmas clean_output_eval =
  clean_output_def src_file_of_def clean_src_file_def clean_folders_def remove_empty_folder_def
  has_entries_def remove_path_def rmtree_def resolve_artifact_def ext_of_def rglob_def

lemma demo_run:
  "clean_output demo_lib ''/recipe'' ''/out'' ''conda'' (B True) demo_logs True True demo_fs
     = (Inr [''out'', ''noarch'', ''mypkg-1.0-py_0.conda''], demo_fs_cleaned)"
  by (simp add: clean_output_eval demo_eval)





section \<open>Deletions and what they leave\<close>

lemma map_of_remove_path:
  "map_of (remove_path fs p) q = (if q = p then None else map_of fs q)"
  by (induction fs) (auto simp: remove_path_def)




lemma is_file_remove_path: "is_file (remove_path fs p) q = (q \<noteq> p \<and> is_file fs q)"
  by (auto simp: is_file_def map_of_remove_path)



















section \<open>The stages of the cleanup\<close>




lemma clean_src_file_failed:
  "clean_src_file lib logs cs fs = (Inl e, fs1) \<Longrightarrow> fs1 = fs"
  by (auto simp: clean_src_file_def split: sum.splits if_splits)


text \<open>A call either fails leaving the disk as it was, or reaches the deletions.\<close>

lemma clean_output_stages:
  assumes "clean_output lib rcp out fmt se logs cb cs fs = (r, fs1)"
  shows "(\<exists>e. r = Inl e \<and> fs1 = fs) \<or>
         (\<exists>package ts fsA.
            1 < length logs \<and>
            get_package_name lib fs (resolve lib rcp) = Inr package \<and>
            get_local_ts lib (IsoStr (timestamp (logs ! 1))) = Inr ts \<and>
            is_dir fs (bld_dir_of (resolve lib out) package ts)
              = not_skipped_of se logs (removeprefix BLD_PREFIX (get_msg (logs ! 1))) \<and>
            (if not_skipped_of se logs (removeprefix BLD_PREFIX (get_msg (logs ! 1)))
             then clean_src_file lib logs cs fs else (Inr (), fs)) = (Inr (), fsA) \<and>
            fs1 = clean_folders (resolve lib out) (bld_dir_of (resolve lib out) package ts)
                    (is_dir fs (bld_dir_of (resolve lib out) package ts)) cb cs fsA \<and>
            r = resolve_artifact lib fs1 (resolve lib out) fmt
                  (removeprefix BLD_PREFIX (get_msg (logs ! 1))))"
  using assms
  by (auto simp: clean_output_def Let_def dest: clean_src_file_failed
           split: if_splits sum.splits prod.splits)




section \<open>The skip flag and the build directory\<close>

text \<open>
  Claim C1, as the source has it. Once the variant line, the package name and the
  timestamp have been read, the run goes on only if the build directory exists exactly
  when the build was \<^emph>\<open>not\<close> skipped. So the skip flag is true iff the build directory
  does not exist: when the directory exists and the build was skipped, or the directory
  is missing and the build was not skipped, the run ends with the \<open>ValueError\<close> of line
  120 and the disk is as it was; and every run that returns a package had the skip
  flag true iff the directory was absent.
\<close>

theorem clean_output_skip_consistency:
  assumes "1 < length logs"
    and "get_package_name lib fs (resolve lib rcp) = Inr package"
    and "get_local_ts lib (IsoStr (timestamp (logs ! 1))) = Inr ts"
  shows "(is_dir fs (bld_dir_of (resolve lib out) package ts)
            = (\<not> not_skipped_of se logs (removeprefix BLD_PREFIX (get_msg (logs ! 1)))) \<longrightarrow>
          clean_output lib rcp out fmt se logs cb cs fs
            = (Inl (ValueError ''bld dir exists but it shouldnt or vice versa''), fs)) \<and>
         ((\<exists>m fs'. clean_output lib rcp out fmt se logs cb cs fs = (Inr m, fs')) \<longrightarrow>
          (\<not> not_skipped_of se logs (removeprefix BLD_PREFIX (get_msg (logs ! 1))))
            = (\<not> is_dir fs (bld_dir_of (resolve lib out) package ts)))"
  using assms by (auto simp: clean_output_def Let_def)

theorem clean_output_skip_consistency_witness:
  "clean_output demo_lib ''/recipe'' ''/out'' ''conda'' (B True) demo_logs True True demo_fs_cleaned
     = (Inl (ValueError ''bld dir exists but it shouldnt or vice versa''), demo_fs_cleaned) \<and>
   (\<not> not_skipped_of (B True) demo_logs (removeprefix BLD_PREFIX (get_msg (demo_logs ! 1))))
     = (\<not> is_dir demo_fs (bld_dir_of (resolve demo_lib ''/out'') ''mypkg'' 1705314600))"
  using clean_output_skip_consistency [of demo_logs demo_lib demo_fs_cleaned "''/recipe''" "''mypkg''"
          1705314600 "''/out''" "B True" "''conda''" True True]
        clean_output_skip_consistency [of demo_logs demo_lib demo_fs "''/recipe''" "''mypkg''"
          1705314600 "''/out''" "B True" "''conda''" True True]
        demo_run
  by (simp add: demo_eval)

text \<open>
  The claim as the specification words it (skip flag true iff the build directory
  exists, any mismatch fatal) fails on the sample run: the build was not skipped, the
  build directory exists, and the run returns the package after deleting the caches.
\<close>

theorem skip_flag_counterexample:
  "get_package_name demo_lib demo_fs (resolve demo_lib ''/recipe'') = Inr ''mypkg'' \<and>
   get_local_ts demo_lib (IsoStr (timestamp (demo_logs ! 1))) = Inr 1705314600 \<and>
   (\<not> not_skipped_of (B True) demo_logs (removeprefix BLD_PREFIX (get_msg (demo_logs ! 1)))) = False \<and>
   is_dir demo_fs (bld_dir_of (resolve demo_lib ''/out'') ''mypkg'' 1705314600) = True \<and>
   clean_output demo_lib ''/recipe'' ''/out'' ''conda'' (B True) demo_logs True True demo_fs
     = (Inr [''out'', ''noarch'', ''mypkg-1.0-py_0.conda''], demo_fs_cleaned) \<and>
   demo_fs_cleaned \<noteq> demo_fs"
  using demo_run by (simp add: demo_eval)

section \<open>Invoking the cleanup a second time\<close>








section \<open>Locating the package\<close>




lemma clean_output_returns_artifact:
  "clean_output lib rcp out package_fmt se logs cb cs fs = (Inr m, fs1) \<Longrightarrow>
   resolve_artifact lib fs1 (resolve lib out) package_fmt
     (removeprefix BLD_PREFIX (get_msg (logs ! 1))) = Inr m"
  by (auto dest: clean_output_stages)



section \<open>The argument list as a table of flags\<close>

lemma render_append: "render (xs @ ys) = render xs @ render ys"
  by (simp add: render_def)

lemma render_Cons: "render (e # xs) = PyStr (fst e) # snd e @ render xs"
  by (simp add: render_def)

lemma render_Nil: "render [] = []"
  by (simp add: render_def)

lemma render_channels:
  "render (map (\<lambda>channel. (''--channel'', [PyStr channel])) cs)
     = concat (map (\<lambda>channel. [PyStr ''--channel'', PyStr channel]) cs)"
  by (induction cs) (simp_all add: render_def)

lemma render_verbose: "render (replicate n (''--verbose'', [])) = replicate n (PyStr ''--verbose'')"
  by (induction n) (simp_all add: render_def)

lemma render_booleans:
  "render (map (\<lambda>e. (snd e, [])) (filter fst bs))
     = concat (map (\<lambda>(arg, flag). if arg then [PyStr flag] else []) bs)"
  by (induction bs) (auto simp: render_def)

lemma render_optionals:
  "render (concat (map (\<lambda>(arg, flag). case arg of None \<Rightarrow> [] | Some v \<Rightarrow> [(flag, [PyStr (q (str_of v))])]) os))
     = concat (map (\<lambda>(arg, flag). case arg of None \<Rightarrow> [] | Some v \<Rightarrow> [PyStr flag, PyStr (q (str_of v))]) os)"
  by (induction os) (auto simp: render_def split: option.splits)

lemma render_extra_meta:
  "render (map (\<lambda>(key, val). (''--extra-meta'', [PyStr (f key val)])) m)
     = concat (map (\<lambda>(key, val). [PyStr ''--extra-meta'', PyStr (f key val)]) m)"
  by (induction m) (auto simp: render_def)

lemma rattler_build_args_render:
  "rattler_build_args lib cfg ex = PyPath ex # PyStr ''build'' # render (flag_table lib cfg)"
  by (simp add: rattler_build_args_def flag_table_def render_append render_Cons render_Nil
        render_channels render_verbose render_booleans render_optionals render_extra_meta
      split: option.splits)

lemma filter_flag_channels:
  "f \<noteq> ''--channel'' \<Longrightarrow> filter (\<lambda>e. fst e = f) (map (\<lambda>channel. (''--channel'', [PyStr channel])) cs) = []"
  by (induction cs) auto

lemma filter_flag_extra_meta:
  "f \<noteq> ''--extra-meta'' \<Longrightarrow>
   filter (\<lambda>e. fst e = f) (map (\<lambda>(key, val). (''--extra-meta'', [PyStr (g key val)])) m) = []"
  by (induction m) auto

lemma filter_flag_verbose:
  "f \<noteq> ''--verbose'' \<Longrightarrow> filter (\<lambda>e. fst e = f) (replicate n (''--verbose'', [])) = []"
  by (induction n) auto

lemma filter_flag_booleans:
  "f \<notin> snd ` set bs \<Longrightarrow> filter (\<lambda>e. fst e = f) (map (\<lambda>e. (snd e, [])) (filter fst bs)) = []"
  by (induction bs) auto

lemma filter_flag_optionals:
  "f \<notin> snd ` set os \<Longrightarrow>
   filter (\<lambda>e. fst e = f)
     (concat (map (\<lambda>(arg, flag). case arg of None \<Rightarrow> [] | Some v \<Rightarrow> [(flag, [PyStr (q v)])]) os)) = []"
  by (induction os) (auto split: option.splits)

lemma filter_flag_optionals_one:
  "distinct (map snd os) \<Longrightarrow> (arg, f) \<in> set os \<Longrightarrow>
   filter (\<lambda>e. fst e = f)
     (concat (map (\<lambda>(arg, flag). case arg of None \<Rightarrow> [] | Some v \<Rightarrow> [(flag, [PyStr (q v)])]) os))
   = (case arg of None \<Rightarrow> [] | Some v \<Rightarrow> [(f, [PyStr (q v)])])"
proof (induction os)
  case Nil
  then show ?case by simp
next
  case (Cons a os)
  show ?case
  proof (cases "a = (arg, f)")
    case True
    with Cons.prems have "f \<notin> snd ` set os" by auto
    with True show ?thesis
      by (simp add: filter_flag_optionals split: option.splits)
  next
    case False
    with Cons.prems have "(arg, f) \<in> set os" "snd a \<noteq> f" "distinct (map snd os)"
      by (auto simp: image_iff) 
    with Cons.IH show ?thesis
      by (cases a) (auto split: option.splits)
  qed
qed

lemma boolean_flags:
  "snd ` set (boolean_values cfg) =
     {''--quiet'', ''--ignore-recipe-variants'', ''--render-only'', ''--with-solve'',
      ''--keep_build'', ''--no-build-id'', ''--experimental'', ''--no-include-recipe'',
      ''--color-build-log''}"
  by (simp add: boolean_values_def insert_commute)

lemma optional_flags:
  "map snd (optional_values cfg) =
     [''--recipe-dir'', ''--up-to'', ''--target-platform'', ''--variant-config'',
      ''--wrap-log-lines'', ''--compression-threads'', ''--noarch-build-platform'']"
  by (simp add: optional_values_def)

lemma optional_flag_set:
  "snd ` set (optional_values cfg) =
     {''--recipe-dir'', ''--up-to'', ''--target-platform'', ''--variant-config'',
      ''--wrap-log-lines'', ''--compression-threads'', ''--noarch-build-platform''}"
  using optional_flags [of cfg] by (simp add: set_map [symmetric] del: set_map)

lemmas flag_filters =
  filter_flag_channels filter_flag_extra_meta filter_flag_verbose filter_flag_booleans
  filter_flag_optionals boolean_flags optional_flag_set

lemma filter_flag_table_optional:
  assumes "f \<in> snd ` set (optional_values cfg)"
  shows "filter (\<lambda>e. fst e = f) (flag_table lib cfg)
     = filter (\<lambda>e. fst e = f)
         (concat (map (\<lambda>(arg, flag). case arg of None \<Rightarrow> []
                  | Some v \<Rightarrow> [(flag, [PyStr (shlex_quote lib (str_of v))])]) (optional_values cfg)))"
proof -
  from assms have fl: "f \<in> {''--recipe-dir'', ''--up-to'', ''--target-platform'', ''--variant-config'',
      ''--wrap-log-lines'', ''--compression-threads'', ''--noarch-build-platform''}"
    by (simp only: optional_flag_set)
  have req: "f \<noteq> ''--recipe''" "f \<noteq> ''--build-platform''" "f \<noteq> ''--host-platform''"
    "f \<noteq> ''--log-style''" "f \<noteq> ''--color''" "f \<noteq> ''--test''" "f \<noteq> ''--output-dir''"
    "f \<noteq> ''--skip-existing''"
    using fl by auto
  have rep: "f \<noteq> ''--channel''" "f \<noteq> ''--verbose''" "f \<noteq> ''--no-test''"
    "f \<noteq> ''--extra-meta''" "f \<noteq> ''--package-format''"
    using fl by auto
  have bool: "f \<notin> snd ` set (boolean_values cfg)"
    unfolding boolean_flags using fl by auto
  have req': "''--recipe'' \<noteq> f" "''--build-platform'' \<noteq> f" "''--host-platform'' \<noteq> f"
    "''--log-style'' \<noteq> f" "''--color'' \<noteq> f" "''--test'' \<noteq> f" "''--output-dir'' \<noteq> f"
    "''--skip-existing'' \<noteq> f" "''--no-test'' \<noteq> f" "''--package-format'' \<noteq> f"
    using req rep by simp_all
  show ?thesis
    unfolding flag_table_def
    by (simp only: filter_append filter.simps fst_conv req' if_False
          filter_flag_channels [OF rep(1)] filter_flag_verbose [OF rep(2)]
          filter_flag_extra_meta [OF rep(4)] filter_flag_booleans [OF bool]
          append_Nil append_Nil2 option.case_distrib [of "filter (\<lambda>e. fst e = f)"]
          if_distrib [of "filter (\<lambda>e. fst e = f)"] if_cancel option.case_eq_if)
qed

lemma demo_args:
  "rattler_build_args demo_lib demo_cfg demo_exec =
     [PyPath [''opt'', ''conda'', ''bin'', ''rattler-build''], PyStr ''build'',
      PyStr ''--recipe'', PyPath [''recipe''],
      PyStr ''--build-platform'', PyStr ''linux-64'',
      PyStr ''--host-platform'', PyStr ''linux-64'',
      PyStr ''--log-style'', PyStr ''fancy'',
      PyStr ''--color'', PyStr ''auto'',
      PyStr ''--test'', PyStr ''native-and-emulated'',
      PyStr ''--output-dir'', PyPath [''out''],
      PyStr ''--skip-existing'', PyStr ''none'',
      PyStr ''--channel'', PyStr ''conda-forge'',
      PyStr ''--no-test'',
      PyStr ''--variant-config'', PyStr ([CHR 0x27] @ ''/tmp/my variants.yaml'' @ [CHR 0x27]),
      PyStr ''--compression-threads'', PyStr ''4'',
      PyStr ''--package-format'', PyStr ''tar-bz2:5'']"
  by (simp add: rattler_build_args_def demo_cfg_def demo_exec_def demo_lib_def posix_parts_def
        boolean_values_def optional_values_def fmt_of_def posix_quote_def safe_chars_def
        path_str_def str_int_def str_nat.simps)

section \<open>The test flag\<close>

text \<open>
  Claim C9. The argument list is the executable, \<open>build\<close> and the rendered flag table,
  and for every configuration the table holds the flag \<open>--test\<close> exactly once, followed
  by the strategy. When the deprecated \<open>no_test\<close> is true the table holds \<open>--no-test\<close>
  as well, once, so both flags are in the same invocation.
\<close>

theorem test_flag_always_emitted:
  "rattler_build_args lib cfg ex = PyPath ex # PyStr ''build'' # render (flag_table lib cfg) \<and>
   filter (\<lambda>e. fst e = ''--test'') (flag_table lib cfg) = [(''--test'', [PyStr (test cfg)])] \<and>
   (no_test cfg \<longrightarrow>
      filter (\<lambda>e. fst e = ''--no-test'') (flag_table lib cfg) = [(''--no-test'', [])])"
proof (intro conjI impI)
  show "rattler_build_args lib cfg ex = PyPath ex # PyStr ''build'' # render (flag_table lib cfg)"
    by (rule rattler_build_args_render)
  show "filter (\<lambda>e. fst e = ''--test'') (flag_table lib cfg) = [(''--test'', [PyStr (test cfg)])]"
    by (simp add: flag_table_def flag_filters split: option.splits)
  assume "no_test cfg"
  then show "filter (\<lambda>e. fst e = ''--no-test'') (flag_table lib cfg) = [(''--no-test'', [])]"
    by (simp add: flag_table_def flag_filters split: option.splits)
qed

theorem test_flag_always_emitted_witness:
  "filter (\<lambda>e. fst e = ''--test'') (flag_table demo_lib demo_cfg)
     = [(''--test'', [PyStr ''native-and-emulated''])] \<and>
   filter (\<lambda>e. fst e = ''--no-test'') (flag_table demo_lib demo_cfg) = [(''--no-test'', [])]"
proof -
  have h: "no_test demo_cfg" "test demo_cfg = ''native-and-emulated''"
    by (simp_all add: demo_cfg_def)
  from test_flag_always_emitted [of demo_lib demo_cfg demo_exec] h show ?thesis
    by simp
qed

section \<open>The package format\<close>

text \<open>
  Claim C7. For every configuration the flag \<open>--package-format\<close> is emitted once, as the
  last two elements of the argument list, and its value is the single token
  \<open>format:level\<close> when a compression level is given and the format alone otherwise; the
  format \<open>tar-bz2\<close> with level 5 gives \<open>tar-bz2:5\<close>.
\<close>

theorem package_format_token:
  "rattler_build_args lib cfg ex = PyPath ex # PyStr ''build'' # render (flag_table lib cfg) \<and>
   filter (\<lambda>e. fst e = ''--package-format'') (flag_table lib cfg)
     = [(''--package-format'',
         [PyStr (case package_compression cfg of
                   None \<Rightarrow> package_format cfg
                 | Some level \<Rightarrow> package_format cfg @ '':'' @ str_int level)])] \<and>
   drop (length (rattler_build_args lib cfg ex) - 2) (rattler_build_args lib cfg ex)
     = [PyStr ''--package-format'',
        PyStr (case package_compression cfg of
                 None \<Rightarrow> package_format cfg
               | Some level \<Rightarrow> package_format cfg @ '':'' @ str_int level)] \<and>
   (package_format cfg = ''tar-bz2'' \<and> package_compression cfg = Some 5 \<longrightarrow>
      last (rattler_build_args lib cfg ex) = PyStr ''tar-bz2:5'')"
proof (intro conjI impI)
  show "rattler_build_args lib cfg ex = PyPath ex # PyStr ''build'' # render (flag_table lib cfg)"
    by (rule rattler_build_args_render)
  show "filter (\<lambda>e. fst e = ''--package-format'') (flag_table lib cfg)
     = [(''--package-format'',
         [PyStr (case package_compression cfg of
                   None \<Rightarrow> package_format cfg
                 | Some level \<Rightarrow> package_format cfg @ '':'' @ str_int level)])]"
    by (simp add: flag_table_def flag_filters fmt_of_def split: option.splits)
  obtain front where front: "rattler_build_args lib cfg ex
      = front @ [PyStr ''--package-format'', PyStr (fmt_of cfg)]"
    unfolding rattler_build_args_def by (metis append_assoc)
  then show "drop (length (rattler_build_args lib cfg ex) - 2) (rattler_build_args lib cfg ex)
     = [PyStr ''--package-format'',
        PyStr (case package_compression cfg of
                 None \<Rightarrow> package_format cfg
               | Some level \<Rightarrow> package_format cfg @ '':'' @ str_int level)]"
    by (simp add: fmt_of_def split: option.splits)
  assume "package_format cfg = ''tar-bz2'' \<and> package_compression cfg = Some 5"
  with front show "last (rattler_build_args lib cfg ex) = PyStr ''tar-bz2:5''"
    by (simp add: fmt_of_def str_int_def str_nat.simps)
qed

theorem package_format_token_witness:
  "last (rattler_build_args demo_lib demo_cfg demo_exec) = PyStr ''tar-bz2:5''"
proof -
  have h: "package_format demo_cfg = ''tar-bz2'' \<and> package_compression demo_cfg = Some 5"
    by (simp add: demo_cfg_def)
  from package_format_token [of demo_lib demo_cfg demo_exec] h show ?thesis
    by blast
qed

section \<open>The optional values\<close>

text \<open>
  Claim C8, as the source has it. Each of the seven optional values (\<open>--recipe-dir\<close>,
  \<open>--up-to\<close>, \<open>--target-platform\<close>, \<open>--variant-config\<close>, \<open>--wrap-log-lines\<close>,
  \<open>--compression-threads\<close>, \<open>--noarch-build-platform\<close>) is emitted, once, as its flag
  followed by one value exactly when it is set, and not at all when it is \<open>None\<close>. The
  value is \<open>shlex.quote(str(arg))\<close> whatever the type of the option: a path and an
  integer go through the same quoting as a string.
\<close>

theorem optional_values_emitted:
  "rattler_build_args lib cfg ex = PyPath ex # PyStr ''build'' # render (flag_table lib cfg) \<and>
   (\<forall>(arg, flag) \<in> set (optional_values cfg).
      filter (\<lambda>e. fst e = flag) (flag_table lib cfg)
        = (case arg of None \<Rightarrow> [] | Some v \<Rightarrow> [(flag, [PyStr (shlex_quote lib (str_of v))])]))"
proof (intro conjI ballI)
  show "rattler_build_args lib cfg ex = PyPath ex # PyStr ''build'' # render (flag_table lib cfg)"
    by (rule rattler_build_args_render)
next
  fix x assume x: "x \<in> set (optional_values cfg)"
  obtain arg flag where af: "x = (arg, flag)" by (cases x)
  have d: "distinct (map snd (optional_values cfg))"
    by (simp add: optional_flags)
  have mem: "flag \<in> snd ` set (optional_values cfg)"
    using x af by force
  have one: "filter (\<lambda>e. fst e = flag)
     (concat (map (\<lambda>(arg, flag). case arg of None \<Rightarrow> []
                  | Some v \<Rightarrow> [(flag, [PyStr (shlex_quote lib (str_of v))])]) (optional_values cfg)))
     = (case arg of None \<Rightarrow> [] | Some v \<Rightarrow> [(flag, [PyStr (shlex_quote lib (str_of v))])])"
    using filter_flag_optionals_one [OF d, of arg flag "\<lambda>v. shlex_quote lib (str_of v)"] x af
    by simp
  have "filter (\<lambda>e. fst e = flag) (flag_table lib cfg)
        = (case arg of None \<Rightarrow> [] | Some v \<Rightarrow> [(flag, [PyStr (shlex_quote lib (str_of v))])])"
    by (simp only: filter_flag_table_optional [OF mem] one)
  with af show "case x of (arg, flag) \<Rightarrow>
      filter (\<lambda>e. fst e = flag) (flag_table lib cfg)
        = (case arg of None \<Rightarrow> [] | Some v \<Rightarrow> [(flag, [PyStr (shlex_quote lib (str_of v))])])"
    by simp
qed

theorem optional_values_emitted_witness:
  "filter (\<lambda>e. fst e = ''--variant-config'') (flag_table demo_lib demo_cfg)
     = [(''--variant-config'', [PyStr ([CHR 0x27] @ ''/tmp/my variants.yaml'' @ [CHR 0x27])])] \<and>
   filter (\<lambda>e. fst e = ''--compression-threads'') (flag_table demo_lib demo_cfg)
     = [(''--compression-threads'', [PyStr ''4''])] \<and>
   filter (\<lambda>e. fst e = ''--up-to'') (flag_table demo_lib demo_cfg) = []"
proof -
  have vals: "optional_values demo_cfg =
     [(None, ''--recipe-dir''), (None, ''--up-to''), (None, ''--target-platform''),
      (Some (PyPath [''tmp'', ''my variants.yaml'']), ''--variant-config''),
      (None, ''--wrap-log-lines''), (Some (PyInt 4), ''--compression-threads''),
      (None, ''--noarch-build-platform'')]"
    by (simp add: optional_values_def demo_cfg_def)
  have q: "shlex_quote demo_lib (path_str [''tmp'', ''my variants.yaml''])
             = [CHR 0x27] @ ''/tmp/my variants.yaml'' @ [CHR 0x27]"
    "shlex_quote demo_lib (str_int 4) = ''4''"
    by (simp_all add: demo_lib_def posix_quote_def safe_chars_def path_str_def str_int_def
          str_nat.simps)
  from optional_values_emitted [of demo_lib demo_cfg demo_exec] show ?thesis
    unfolding vals by (simp add: q)
qed

text \<open>
  The claim as the specification words it (values that are not strings are emitted
  unquoted) fails for \<open>variant_config\<close>, a \<open>Path\<close>: with the standard library's
  \<open>shlex.quote\<close> the path \<open>/tmp/my variants.yaml\<close> is emitted inside single quotes;
  neither the path nor its plain string is in the argument list.
\<close>

theorem unquoted_values_counterexample:
  "variant_config demo_cfg = Some [''tmp'', ''my variants.yaml''] \<and>
   str_of (PyPath [''tmp'', ''my variants.yaml'']) = ''/tmp/my variants.yaml'' \<and>
   PyPath [''tmp'', ''my variants.yaml''] \<notin> set (rattler_build_args demo_lib demo_cfg demo_exec) \<and>
   PyStr ''/tmp/my variants.yaml'' \<notin> set (rattler_build_args demo_lib demo_cfg demo_exec) \<and>
   drop 21 (rattler_build_args demo_lib demo_cfg demo_exec)
     = [PyStr ''--variant-config'', PyStr ([CHR 0x27] @ ''/tmp/my variants.yaml'' @ [CHR 0x27]),
        PyStr ''--compression-threads'', PyStr ''4'',
        PyStr ''--package-format'', PyStr ''tar-bz2:5'']"
  by (simp add: demo_args) (simp add: demo_cfg_def path_str_def)

section \<open>The option tables of the driver\<close>

lemma subscript_test_map:
  "subscript test_map (B False) = Inr ''skip''"
  "subscript test_map (Lit ''native'') = Inr ''native''"
  "subscript test_map (B True) = Inr ''native-and-emulated''"
  by (simp_all add: subscript_def test_map_def)

lemma subscript_skip_existing_map:
  "subscript skip_existing_map (B False) = Inr ''none''"
  "subscript skip_existing_map (B True) = Inr ''local''"
  "subscript skip_existing_map (Lit ''all'') = Inr ''all''"
  by (simp_all add: subscript_def skip_existing_map_def)

text \<open>
  Claim C6. The driver translates its \<open>test\<close> option by the fixed table: the value that
  skips the tests, which the source writes \<open>False\<close>, to \<open>skip\<close>; \<open>"native"\<close> to \<open>native\<close>;
  \<open>True\<close> to \<open>native-and-emulated\<close>. It translates its \<open>skip_existing\<close> option by \<open>False\<close>
  to \<open>none\<close>, \<open>True\<close> to \<open>local\<close>, \<open>"all"\<close> to \<open>all\<close>. Both are looked up before the
  full build function is called, and the two values looked up are the \<open>test\<close> and the
  \<open>skip_existing\<close> of the configuration it is called with.
\<close>

theorem driver_option_tables:
  "subscript test_map (B False) = Inr ''skip'' \<and>
   subscript test_map (Lit ''native'') = Inr ''native'' \<and>
   subscript test_map (B True) = Inr ''native-and-emulated'' \<and>
   subscript skip_existing_map (B False) = Inr ''none'' \<and>
   subscript skip_existing_map (B True) = Inr ''local'' \<and>
   subscript skip_existing_map (Lit ''all'') = Inr ''all'' \<and>
   (subscript test_map (opt_test oc) = Inr t \<and>
    subscript skip_existing_map (opt_skip_existing oc) = Inr s \<longrightarrow>
      test (delegated_config oc t s) = t \<and>
      skip_existing (delegated_config oc t s) = s \<and>
      optimized_rattler_build lib oc fs =
        (case rattler_build lib (delegated_config oc t s) fs of
           (Inl e, fs1) \<Rightarrow> (Inl e, fs1)
         | (Inr (logs, code), fs1) \<Rightarrow> after_build lib oc logs code fs1))"
  by (simp add: subscript_test_map subscript_skip_existing_map delegated_config_def
        optimized_rattler_build_def)

theorem driver_option_tables_witness:
  "test (delegated_config demo_oc ''native-and-emulated'' ''local'') = ''native-and-emulated'' \<and>
   skip_existing (delegated_config demo_oc ''native-and-emulated'' ''local'') = ''local'' \<and>
   optimized_rattler_build demo_lib demo_oc demo_fs_installed =
     (case rattler_build demo_lib (delegated_config demo_oc ''native-and-emulated'' ''local'') demo_fs_installed of
        (Inl e, fs1) \<Rightarrow> (Inl e, fs1)
      | (Inr (logs, code), fs1) \<Rightarrow> after_build demo_lib demo_oc logs code fs1) \<and>
   test (delegated_config (demo_oc \<lparr> opt_test := B False, opt_skip_existing := Lit ''all'' \<rparr>) ''skip'' ''all'')
     = ''skip'' \<and>
   skip_existing (delegated_config (demo_oc \<lparr> opt_test := B False, opt_skip_existing := Lit ''all'' \<rparr>) ''skip'' ''all'')
     = ''all''"
proof -
  have h: "opt_test demo_oc = B True" "opt_skip_existing demo_oc = B True"
    by (simp_all add: demo_oc_def)
  have 1: "test (delegated_config demo_oc ''native-and-emulated'' ''local'') = ''native-and-emulated'' \<and>
   skip_existing (delegated_config demo_oc ''native-and-emulated'' ''local'') = ''local'' \<and>
   optimized_rattler_build demo_lib demo_oc demo_fs_installed =
     (case rattler_build demo_lib (delegated_config demo_oc ''native-and-emulated'' ''local'') demo_fs_installed of
        (Inl e, fs1) \<Rightarrow> (Inl e, fs1)
      | (Inr (logs, code), fs1) \<Rightarrow> after_build demo_lib demo_oc logs code fs1)"
    using driver_option_tables [of demo_oc "''native-and-emulated''" "''local''" demo_lib demo_fs_installed] h
    by simp
  have 2: "test (delegated_config (demo_oc \<lparr> opt_test := B False, opt_skip_existing := Lit ''all'' \<rparr>) ''skip'' ''all'')
       = ''skip'' \<and>
     skip_existing (delegated_config (demo_oc \<lparr> opt_test := B False, opt_skip_existing := Lit ''all'' \<rparr>) ''skip'' ''all'')
       = ''all''"
    using driver_option_tables [of "demo_oc \<lparr> opt_test := B False, opt_skip_existing := Lit ''all'' \<rparr>"
            "''skip''" "''all''" demo_lib demo_fs_installed]
    by simp
  from 1 2 show ?thesis by simp
qed

section \<open>A build that fails\<close>

lemma dump_logs_and_raise_leaves_no_file:
  "dump_logs_and_raise lib logs fs
     = (RuntimeError (''rattler-build failed. logs written to: '' @ path_str (mktemp_name lib fs)),
        remove_path fs (mktemp_name lib fs))"
  by (simp add: dump_logs_and_raise_def Let_def remove_path_def)

lemma read_text_removed:
  "read_text (remove_path fs p) p = Inl (FileNotFoundError (path_str p))"
  by (simp add: read_text_def map_of_remove_path)

lemma demo_failed_build:
  "rattler_build demo_lib (delegated_config demo_oc ''native-and-emulated'' ''local'') demo_fs_installed
     = (Inr ([\<lparr> timestamp = ''2024-01-15T10:30:00.123456Z'', message = ''failed'' \<rparr>], 1),
        demo_fs_installed)"
  by (simp add: rattler_build_def demo_lib_def demo_fs_installed_def demo_exec_def posix_parts_def
        is_file_def Let_def)

text \<open>
  Claim C4, what the source does. Let the external process run and exit with a code
  other than zero. Nothing is cleaned. Without \<open>check\<close> the driver returns no package,
  the logs and the exit code. With \<open>check\<close> it writes the logs into a
  \<open>NamedTemporaryFile\<close> and raises a \<open>RuntimeError\<close> that names this file; but the
  file is created with the default \<open>delete=True\<close>, so leaving the \<open>with\<close> block has
  removed it before the exception is raised: no file of that name is on the disk
  afterwards, and the logs are not persisted.
\<close>

theorem failed_build_outcome:
  assumes "subscript test_map (opt_test oc) = Inr t"
    and "subscript skip_existing_map (opt_skip_existing oc) = Inr s"
    and "rattler_build lib (delegated_config oc t s) fs = (Inr (logs, code), fs1)"
    and "code \<noteq> 0"
  shows "(\<not> check oc \<longrightarrow>
            optimized_rattler_build lib oc fs = (Inr (None, logs, code), fs1)) \<and>
         (check oc \<longrightarrow>
            optimized_rattler_build lib oc fs
              = (Inl (RuntimeError (''rattler-build failed. logs written to: ''
                                      @ path_str (mktemp_name lib fs1))),
                 remove_path fs1 (mktemp_name lib fs1)) \<and>
            \<not> is_file (remove_path fs1 (mktemp_name lib fs1)) (mktemp_name lib fs1) \<and>
            read_text (remove_path fs1 (mktemp_name lib fs1)) (mktemp_name lib fs1)
              = Inl (FileNotFoundError (path_str (mktemp_name lib fs1))))"
  using assms
  by (simp add: optimized_rattler_build_def after_build_def dump_logs_and_raise_leaves_no_file
        is_file_remove_path read_text_removed)

theorem failed_build_outcome_witness:
  "optimized_rattler_build demo_lib demo_oc demo_fs_installed
     = (Inl (RuntimeError ''rattler-build failed. logs written to: /tmp/tmpk3v9x1q2''),
        demo_fs_installed) \<and>
   \<not> is_file demo_fs_installed [''tmp'', ''tmpk3v9x1q2''] \<and>
   optimized_rattler_build demo_lib (demo_oc \<lparr> check := False \<rparr>) demo_fs_installed
     = (Inr (None, [\<lparr> timestamp = ''2024-01-15T10:30:00.123456Z'', message = ''failed'' \<rparr>], 1),
        demo_fs_installed)"
proof -
  have keys: "subscript test_map (opt_test demo_oc) = Inr ''native-and-emulated''"
    "subscript skip_existing_map (opt_skip_existing demo_oc) = Inr ''local''"
    "subscript test_map (opt_test (demo_oc \<lparr> check := False \<rparr>)) = Inr ''native-and-emulated''"
    "subscript skip_existing_map (opt_skip_existing (demo_oc \<lparr> check := False \<rparr>)) = Inr ''local''"
    by (simp_all add: demo_oc_def subscript_def test_map_def skip_existing_map_def)
  have chk: "check demo_oc" "\<not> check (demo_oc \<lparr> check := False \<rparr>)"
    by (simp_all add: demo_oc_def)
  have same: "delegated_config (demo_oc \<lparr> check := False \<rparr>) ''native-and-emulated'' ''local''
      = delegated_config demo_oc ''native-and-emulated'' ''local''"
    by (simp add: delegated_config_def)
  have tmp: "mktemp_name demo_lib demo_fs_installed = [''tmp'', ''tmpk3v9x1q2'']"
    by (simp add: demo_lib_def)
  have fresh: "remove_path demo_fs_installed [''tmp'', ''tmpk3v9x1q2''] = demo_fs_installed"
    by (simp add: remove_path_def demo_fs_installed_def demo_fs_def demo_exec_def)
  have name: "path_str [''tmp'', ''tmpk3v9x1q2''] = ''/tmp/tmpk3v9x1q2''"
    by (simp add: path_str_def)
  have one: "(1::int) \<noteq> 0" by simp
  from failed_build_outcome [OF keys(1) keys(2) demo_failed_build one] chk(1)
  have a: "optimized_rattler_build demo_lib demo_oc demo_fs_installed
     = (Inl (RuntimeError ''rattler-build failed. logs written to: /tmp/tmpk3v9x1q2''),
        demo_fs_installed) \<and>
     \<not> is_file demo_fs_installed [''tmp'', ''tmpk3v9x1q2'']"
    by (simp add: tmp fresh name)
  from failed_build_outcome [OF keys(3) keys(4) demo_failed_build [folded same] one] chk(2)
  have b: "optimized_rattler_build demo_lib (demo_oc \<lparr> check := False \<rparr>) demo_fs_installed
     = (Inr (None, [\<lparr> timestamp = ''2024-01-15T10:30:00.123456Z'', message = ''failed'' \<rparr>], 1),
        demo_fs_installed)"
    by simp
  from a b show ?thesis by simp
qed

section \<open>The timestamp of the build\<close>

text \<open>
  Claim C2, what the source does. For a timestamp string that \<open>strptime\<close> parses to the
  naive reading \<open>w\<close> (in microseconds), \<open>_get_local_ts\<close> always returns, never the
  \<open>ValueError\<close> of line 85, and the integer it returns is the number of whole seconds of
  \<open>w\<close> read as UTC, moved by the difference between two offsets of the local zone: the
  offset it has now, at the call (line 81), and the offset it gives to \<open>w\<close> read as
  a local time (the \<open>astimezone\<close> of line 82 presumes a naive value local). Where the two
  offsets agree the result is the number of epoch seconds of the timestamp read as UTC,
  as the claim says, and two calls agree. Where they differ, across a change of daylight
  saving, it is not, and two calls on the same input at two readings of the clock
  differ.
\<close>

theorem get_local_ts_value:
  assumes "strptime lib s = Inr w"
  shows "get_local_ts lib (IsoStr s)
           = Inr (trunc_div (w + (local_zone_offset lib (now_wall lib) - local_zone_offset lib w) * 1000000)
                    1000000) \<and>
         (local_zone_offset lib (now_wall lib) = local_zone_offset lib w \<longrightarrow>
            get_local_ts lib (IsoStr s) = Inr (trunc_div w 1000000))"
  using assms
  by (simp add: get_local_ts_def now_local_tz_def astimezone_def fromutc_def utcoffset_def
        int_timestamp_def Let_def algebra_simps)

text \<open>
  At the sample inputs. In the zone without daylight saving the timestamp of the
  specification's scenario gives its epoch seconds, 1705314600, and a time before 1970
  is truncated towards zero. In the zone with daylight saving, with the clock in
  November, the timestamp 2024-07-15T10:30:00.123456Z, whose epoch seconds are
  1721039400, gives 1721035800; with the clock in July it gives 1721039400. A build at
  2024-03-31T01:30:00Z, half an hour after the clocks went forward, read at 03:30:05
  local time, gives 1711852200, an hour more than its epoch seconds 1711848600.
\<close>

theorem get_local_ts_value_witness:
  "get_local_ts demo_lib (IsoStr ''2024-01-15T10:30:00.123456Z'') = Inr 1705314600 \<and>
   get_local_ts demo_lib (IsoStr ''1969-12-31T23:59:59.500000Z'') = Inr 0 \<and>
   get_local_ts cet_lib (IsoStr ''2024-07-15T10:30:00.123456Z'') = Inr 1721035800 \<and>
   get_local_ts (cet_lib \<lparr> now_wall := 1721047200000000 \<rparr>) (IsoStr ''2024-07-15T10:30:00.123456Z'')
     = Inr 1721039400 \<and>
   get_local_ts (cet_lib \<lparr> now_wall := 1711855805000000 \<rparr>) (IsoStr ''2024-03-31T01:30:00.000000Z'')
     = Inr 1711852200"
proof -
  have p: "strptime demo_lib ''2024-01-15T10:30:00.123456Z'' = Inr 1705314600123456"
    "strptime demo_lib ''1969-12-31T23:59:59.500000Z'' = Inr (- 500000)"
    "strptime cet_lib ''2024-07-15T10:30:00.123456Z'' = Inr 1721039400123456"
    "strptime (cet_lib \<lparr> now_wall := 1721047200000000 \<rparr>) ''2024-07-15T10:30:00.123456Z''
       = Inr 1721039400123456"
    "strptime (cet_lib \<lparr> now_wall := 1711855805000000 \<rparr>) ''2024-03-31T01:30:00.000000Z''
       = Inr 1711848600000000"
    by (simp_all add: cet_lib_def demo_lib_def sample_strptime_def)
  have 1: "get_local_ts demo_lib (IsoStr ''2024-01-15T10:30:00.123456Z'') = Inr 1705314600"
    using get_local_ts_value [OF p(1)] by (simp add: demo_lib_def trunc_div_def)
  have 2: "get_local_ts demo_lib (IsoStr ''1969-12-31T23:59:59.500000Z'') = Inr 0"
    using get_local_ts_value [OF p(2)] by (simp add: demo_lib_def trunc_div_def)
  have 3: "get_local_ts cet_lib (IsoStr ''2024-07-15T10:30:00.123456Z'') = Inr 1721035800"
    using get_local_ts_value [OF p(3)]
    by (simp add: cet_lib_def demo_lib_def cet_offset_def trunc_div_def)
  have 4: "get_local_ts (cet_lib \<lparr> now_wall := 1721047200000000 \<rparr>) (IsoStr ''2024-07-15T10:30:00.123456Z'')
     = Inr 1721039400"
    using get_local_ts_value [OF p(4)]
    by (simp add: cet_lib_def demo_lib_def cet_offset_def trunc_div_def)
  have 5: "get_local_ts (cet_lib \<lparr> now_wall := 1711855805000000 \<rparr>) (IsoStr ''2024-03-31T01:30:00.000000Z'')
     = Inr 1711852200"
    using get_local_ts_value [OF p(5)]
    by (simp add: cet_lib_def demo_lib_def cet_offset_def trunc_div_def)
  from 1 2 3 4 5 show ?thesis by simp
qed

section \<open>The cleanup is partial\<close>

text \<open>
  Claim C10. \<open>_clean_output\<close> is partial at its interface. Called with fewer than two
  log events it fails with the \<open>IndexError\<close> of \<open>logs[1]\<close>. Called with a build that
  was not skipped (the recipe and the timestamp were read, the build directory is
  there) and with no event after index 1 whose message starts with the source-copy
  prefix, it fails with the \<open>StopIteration\<close> of \<open>next\<close> on the exhausted generator. Both
  are the raw exceptions, no value is returned, and the disk is as it was.
\<close>

theorem clean_output_raw_errors:
  "(length logs < 2 \<longrightarrow>
      clean_output lib rcp out fmt se logs cb cs fs = (Inl IndexError, fs)) \<and>
   (1 < length logs \<and>
    get_package_name lib fs (resolve lib rcp) = Inr package \<and>
    get_local_ts lib (IsoStr (timestamp (logs ! 1))) = Inr ts \<and>
    not_skipped_of se logs (removeprefix BLD_PREFIX (get_msg (logs ! 1))) \<and>
    is_dir fs (bld_dir_of (resolve lib out) package ts) \<and>
    (\<forall>l \<in> set (drop 2 logs). \<not> prefix SRC_PREFIX (get_msg l)) \<longrightarrow>
      clean_output lib rcp out fmt se logs cb cs fs = (Inl StopIteration, fs))"
proof (intro conjI impI)
  assume "length logs < 2"
  then show "clean_output lib rcp out fmt se logs cb cs fs = (Inl IndexError, fs)"
    by (simp add: clean_output_def)
next
  assume h: "1 < length logs \<and>
    get_package_name lib fs (resolve lib rcp) = Inr package \<and>
    get_local_ts lib (IsoStr (timestamp (logs ! 1))) = Inr ts \<and>
    not_skipped_of se logs (removeprefix BLD_PREFIX (get_msg (logs ! 1))) \<and>
    is_dir fs (bld_dir_of (resolve lib out) package ts) \<and>
    (\<forall>l \<in> set (drop 2 logs). \<not> prefix SRC_PREFIX (get_msg l))"
  then have "find (prefix SRC_PREFIX) (map get_msg (drop 2 logs)) = None"
    by (simp add: find_None_iff)
  then have "clean_src_file lib logs cs fs = (Inl StopIteration, fs)"
    by (simp add: clean_src_file_def src_file_of_def)
  with h show "clean_output lib rcp out fmt se logs cb cs fs = (Inl StopIteration, fs)"
    by (simp add: clean_output_def)
qed

theorem clean_output_raw_errors_witness:
  "clean_output demo_lib ''/recipe'' ''/out'' ''conda'' (B True) (take 1 demo_logs) True True demo_fs
     = (Inl IndexError, demo_fs) \<and>
   clean_output demo_lib ''/recipe'' ''/out'' ''conda'' (B True) demo_logs_no_source True True demo_fs
     = (Inl StopIteration, demo_fs)"
  using clean_output_raw_errors [of "take 1 demo_logs" demo_lib "''/recipe''" "''/out''" "''conda''"
          "B True" True True demo_fs "''mypkg''" 1705314600]
        clean_output_raw_errors [of demo_logs_no_source demo_lib "''/recipe''" "''/out''" "''conda''"
          "B True" True True demo_fs "''mypkg''" 1705314600]
  by (simp add: demo_logs_no_source_def demo_eval)

end
